theory Spec2Isabelle
  imports Main
begin

section \<open>JavaScript values used by the sources\<close>

text \<open>
  Strings are byte lists. \<open>toLowerCase\<close> is modelled on the ASCII letters, which is
  all the comparisons of the sources look at (the words compared against are ASCII).
\<close>

definition lower_char :: "char \<Rightarrow> char" where
  "lower_char c =
     (case map_of (zip ''ABCDEFGHIJKLMNOPQRSTUVWXYZ'' ''abcdefghijklmnopqrstuvwxyz'') c of
        None \<Rightarrow> c
      | Some l \<Rightarrow> l)"

definition toLowerCase :: "string \<Rightarrow> string" where
  "toLowerCase s = map lower_char s"

text \<open>A string is truthy when it is present and not empty.\<close>

definition truthy :: "string option \<Rightarrow> bool" where
  "truthy v = (case v of None \<Rightarrow> False | Some s \<Rightarrow> s \<noteq> [])"

section \<open>client/src/App.tsx: the display mode\<close>

text \<open>
  \<open>window.location\<close>: the query string as \<open>URLSearchParams\<close> has parsed it (name and
  value pairs, in order) and the path name.
\<close>

record location =
  search :: "(string \<times> string) list"
  pathname :: string

text \<open>\<open>params.get(name)\<close>: the first value of that name, or null.\<close>

definition params_get :: "(string \<times> string) list \<Rightarrow> string \<Rightarrow> string option" where
  "params_get params name = map_of params name"

text \<open>\<open>path.replace(/\/+$/, '')\<close>: the trailing slashes are removed.\<close>

definition strip_trailing_slashes :: "string \<Rightarrow> string" where
  "strip_trailing_slashes p = rev (dropWhile (\<lambda>c. c = CHR ''/'') (rev p))"

definition isPrivateParam :: "location \<Rightarrow> bool" where
  "isPrivateParam loc =
     (case params_get (search loc) ''private'' of
        None \<Rightarrow> False
      | Some privateParam \<Rightarrow> toLowerCase privateParam \<in> set [''1'', ''true'', ''yes''])"

definition isPrivatePath :: "location \<Rightarrow> bool" where
  "isPrivatePath loc = (strip_trailing_slashes (pathname loc) = ''/private'')"

definition isPublicMode :: "location \<Rightarrow> bool" where
  "isPublicMode loc =
     (let modeParam = params_get (search loc) ''mode'';
          isPublic = (modeParam = Some ''public'')
      in isPublic \<or> \<not> (isPrivateParam loc \<or> isPrivatePath loc))"

text \<open>The option object handed to \<open>useChatMessages\<close>: \<open>{ autoExpire: isPublicMode }\<close>.\<close>

record chat_messages_options =
  autoExpire :: bool

definition useChatMessages_options :: "location \<Rightarrow> chat_messages_options" where
  "useChatMessages_options loc = \<lparr> autoExpire = isPublicMode loc \<rparr>"

section \<open>Effects and exceptions\<close>

text \<open>
  A JavaScript exception is a value; a statement either throws (\<open>Inl\<close>) or completes
  (\<open>Inr\<close>), and in both cases leaves the list of the effects it had on the outside
  world (console output, frames handed to a socket, callbacks invoked), in order.
  What is thrown is an Error object: the catch blocks of the sources read its
  \<open>message\<close>.
\<close>

datatype error = TypeError string | Error string

fun error_message :: "error \<Rightarrow> string" where
  "error_message (TypeError m) = m"
| "error_message (Error m) = m"

datatype platform = Twitch | YouTube | TikTok

text \<open>
  A number the sources handle: an integer or NaN. It is truthy unless it is NaN or 0.
\<close>

datatype jsnum = NaN | Num int

text \<open>The \<open>tags\<close> object tmi.js hands to a message handler (the fields the sources read).\<close>

record tags =
  display_name :: "string option"
  tag_username :: "string option"
  tag_badges :: "(string \<times> string) list option"
  tag_color :: "string option"

text \<open>The \<open>raw\<close> bag of a message (the fields the sources write or read).\<close>

record raw_data =
  raw_channel :: "string option"
  raw_tags :: "tags option"
  raw_subscriptionMonths :: "jsnum option"
  raw_badges :: "(string \<times> string) list option"

definition empty_raw :: raw_data where
  "empty_raw = \<lparr> raw_channel = None, raw_tags = None, raw_subscriptionMonths = None,
                 raw_badges = None \<rparr>"

text \<open>\<open>AdapterEvent\<close>: what an adapter passes to \<open>onMessage\<close>; \<open>None\<close> is an absent property.\<close>

record adapter_event =
  ev_username :: string
  ev_message :: string
  ev_badges :: "string list option"
  ev_color :: "string option"
  ev_raw :: "raw_data option"
  ev_platform :: "platform option"

text \<open>
  The last field is a \<open>platform\<close> property the event object may carry although the
  type \<open>AdapterEvent\<close> does not declare it (an object with more properties than its
  type is accepted wherever the type is); \<open>None\<close> when the object has none.

  The argument of \<open>normalize\<close>: \<open>{ platform: Platform } & AdapterEvent\<close>.
\<close>

record normalize_arg =
  arg_platform :: platform
  arg_username :: string
  arg_message :: string
  arg_badges :: "string list option"
  arg_color :: "string option"
  arg_raw :: "raw_data option"

record chat_message =
  cm_id :: string
  cm_ts :: int
  cm_platform :: platform
  cm_username :: string
  cm_message :: string
  cm_badges :: "string list"
  cm_color :: "string option"
  cm_raw :: raw_data

record ws_message =
  ws_type :: string
  ws_text :: "string option"

datatype wire = Chat chat_message | Control ws_message

text \<open>
  The effects: a line on the console; a call of \<open>JSON.stringify\<close>; a call of \<open>send\<close> on
  a socket (named by its number) that returned, or that threw; a call of the callback
  \<open>onMessage\<close>; the creation of a tmi.js client, the registration of a handler on it
  and its \<open>connect\<close>; a call of an adapter's start function; a \<open>setInterval\<close>.
\<close>

datatype effect =
    ConsoleLog string
  | ConsoleError string
  | ConsoleWarn string
  | JsonStringify wire
  | WsSent nat string
  | WsSendThrew nat string
  | OnMessage adapter_event
  | NewClient bool "string list"
  | ClientOn string
  | ClientConnect
  | StartAdapter platform
  | SetInterval nat

type_synonym 'a io = "(error + 'a) \<times> effect list"

definition ret :: "'a \<Rightarrow> 'a io" where
  "ret x = (Inr x, [])"

definition throw :: "error \<Rightarrow> 'a io" where
  "throw e = (Inl e, [])"

definition emit :: "effect \<Rightarrow> unit io" where
  "emit f = (Inr (), [f])"

text \<open>Sequencing: a throw in the first statement skips the second.\<close>

definition bind :: "'a io \<Rightarrow> ('a \<Rightarrow> 'b io) \<Rightarrow> 'b io" where
  "bind m f =
     (case m of
        (Inl e, t) \<Rightarrow> (Inl e, t)
      | (Inr x, t) \<Rightarrow> (case f x of (r, t') \<Rightarrow> (r, t @ t')))"

text \<open>\<open>try { m } catch (e) { h e }\<close>.\<close>

definition try_catch :: "'a io \<Rightarrow> (error \<Rightarrow> 'a io) \<Rightarrow> 'a io" where
  "try_catch m h =
     (case m of
        (Inl e, t) \<Rightarrow> (case h e of (r, t') \<Rightarrow> (r, t @ t'))
      | (Inr x, t) \<Rightarrow> (Inr x, t))"

text \<open>\<open>for (const x of xs) body(x)\<close>: a throw in a body ends the loop.\<close>

fun for_each :: "('a \<Rightarrow> unit io) \<Rightarrow> 'a list \<Rightarrow> unit io" where
  "for_each body [] = ret ()"
| "for_each body (x # xs) = bind (body x) (\<lambda>_. for_each body xs)"

section \<open>server/src/index.ts: normalize and broadcast\<close>

text \<open>
  \<open>{ platform: p, ...evt }\<close>, the object built at each call site of \<open>normalize\<close>
  (lines 153, 172, 193). The spread comes after \<open>platform\<close>: a \<open>platform\<close> property of
  the event replaces the one the call site wrote.
\<close>

definition with_platform :: "platform \<Rightarrow> adapter_event \<Rightarrow> normalize_arg" where
  "with_platform p evt =
     \<lparr> arg_platform = (case ev_platform evt of None \<Rightarrow> p | Some q \<Rightarrow> q),
       arg_username = ev_username evt,
       arg_message = ev_message evt,
       arg_badges = ev_badges evt,
       arg_color = ev_color evt,
       arg_raw = ev_raw evt \<rparr>"

text \<open>
  \<open>normalize\<close> (named \<open>normalize_event\<close> here, since HOL has a \<open>normalize\<close> of its
  own); \<open>uuid\<close> is what this call's \<open>uuidv4()\<close> returns and \<open>now\<close> what its
  \<open>Date.now()\<close> returns. The defaults \<open>badges = []\<close> and \<open>raw = {}\<close> apply to an absent
  property; \<open>color || null\<close> maps an absent or empty colour to null.
\<close>

definition normalize_event :: "string \<Rightarrow> int \<Rightarrow> normalize_arg \<Rightarrow> chat_message" where
  "normalize_event uuid now arg =
     \<lparr> cm_id = uuid,
       cm_ts = now,
       cm_platform = arg_platform arg,
       cm_username = arg_username arg,
       cm_message = arg_message arg,
       cm_badges = (case arg_badges arg of None \<Rightarrow> [] | Some bs \<Rightarrow> bs),
       cm_color = (if truthy (arg_color arg) then arg_color arg else None),
       cm_raw = (case arg_raw arg of None \<Rightarrow> empty_raw | Some r \<Rightarrow> r) \<rparr>"

text \<open>
  The messages of a session: one \<open>normalize\<close> call per entry, each with the values its
  own \<open>uuidv4()\<close> and \<open>Date.now()\<close> returned.
\<close>

definition normalize_all :: "(string \<times> int \<times> normalize_arg) list \<Rightarrow> chat_message list" where
  "normalize_all calls = map (\<lambda>(uuid, now, arg). normalize_event uuid now arg) calls"

text \<open>
  A viewer socket of \<open>wss.clients\<close>. \<open>send_throws\<close> is the behaviour of the ws library's
  \<open>send\<close> on this socket: the error it throws for a frame, if it throws.
\<close>

datatype ready_state = CONNECTING | OPEN | CLOSING | CLOSED

record ws_client =
  client_id :: nat
  readyState :: ready_state
  send_throws :: "string \<Rightarrow> error option"

definition client_send :: "ws_client \<Rightarrow> string \<Rightarrow> unit io" where
  "client_send client data =
     (case send_throws client data of
        None \<Rightarrow> emit (WsSent (client_id client) data)
      | Some e \<Rightarrow> (Inl e, [WsSendThrew (client_id client) data]))"

text \<open>The body of the loop of \<open>broadcast\<close>.\<close>

definition send_to :: "bool \<Rightarrow> string \<Rightarrow> ws_client \<Rightarrow> unit io" where
  "send_to DEBUG data client =
     (if readyState client = OPEN then
        try_catch (client_send client data)
          (\<lambda>e. if DEBUG then emit (ConsoleError (''WS send error: '' @ error_message e))
                else ret ())
      else ret ())"

text \<open>
  \<open>broadcast\<close>; \<open>stringify\<close> is \<open>JSON.stringify\<close> and \<open>clients\<close> the sockets of
  \<open>wss.clients\<close> in iteration order.
\<close>

definition broadcast :: "bool \<Rightarrow> (wire \<Rightarrow> string) \<Rightarrow> ws_client list \<Rightarrow> wire \<Rightarrow> unit io" where
  "broadcast DEBUG stringify clients msg =
     bind (emit (JsonStringify msg))
       (\<lambda>_. let data = stringify msg in for_each (send_to DEBUG data) clients)"

text \<open>
  A sequence of publishes, each with the sockets \<open>wss.clients\<close> holds at that moment
  (viewers connect, close and fail between publishes).
\<close>

definition publish_all ::
    "bool \<Rightarrow> (wire \<Rightarrow> string) \<Rightarrow> (wire \<times> ws_client list) list \<Rightarrow> unit io" where
  "publish_all DEBUG stringify ps =
     for_each (\<lambda>(msg, clients). broadcast DEBUG stringify clients msg) ps"

text \<open>The frames a viewer's socket accepted, in order.\<close>

fun frames_of :: "nat \<Rightarrow> effect list \<Rightarrow> string list" where
  "frames_of v [] = []"
| "frames_of v (WsSent c d # t) = (if c = v then d # frames_of v t else frames_of v t)"
| "frames_of v (_ # t) = frames_of v t"

text \<open>The sockets \<open>send\<close> was called on, whether it returned or threw, in order.\<close>

fun send_calls :: "effect list \<Rightarrow> (nat \<times> string) list" where
  "send_calls [] = []"
| "send_calls (WsSent c d # t) = (c, d) # send_calls t"
| "send_calls (WsSendThrew c d # t) = (c, d) # send_calls t"
| "send_calls (_ # t) = send_calls t"

fun stringify_calls :: "effect list \<Rightarrow> wire list" where
  "stringify_calls [] = []"
| "stringify_calls (JsonStringify m # t) = m # stringify_calls t"
| "stringify_calls (_ # t) = stringify_calls t"

fun console_errors :: "effect list \<Rightarrow> string list" where
  "console_errors [] = []"
| "console_errors (ConsoleError m # t) = m # console_errors t"
| "console_errors (_ # t) = console_errors t"

section \<open>server/src/adapters/twitch.ts\<close>

text \<open>
  \<open>parseInt(s, 10)\<close>: leading white space is skipped, then an optional sign, then the
  longest run of decimal digits; NaN when there is no digit. The white space is the
  ASCII one, and the value is the exact integer (a JavaScript number rounds beyond 2^53).
\<close>

definition is_space :: "char \<Rightarrow> bool" where
  "is_space c = (c \<in> set [CHR '' '', CHR 0x09, CHR 0x0A, CHR 0x0B, CHR 0x0C, CHR 0x0D])"

definition digit_of :: "char \<Rightarrow> nat option" where
  "digit_of c = map_of (zip ''0123456789'' [0, 1, 2, 3, 4, 5, 6, 7, 8, 9]) c"

fun digits_value :: "nat \<Rightarrow> string \<Rightarrow> nat" where
  "digits_value acc [] = acc"
| "digits_value acc (c # cs) =
     (case digit_of c of None \<Rightarrow> acc | Some d \<Rightarrow> digits_value (10 * acc + d) cs)"

definition parseInt10 :: "string \<Rightarrow> jsnum" where
  "parseInt10 s =
     (let t = dropWhile is_space s;
          neg = (take 1 t = ''-'');
          u = (if take 1 t = ''-'' \<or> take 1 t = ''+'' then drop 1 t else t)
      in case u of
           [] \<Rightarrow> NaN
         | c # cs \<Rightarrow>
             (if digit_of c = None then NaN
              else Num ((if neg then - 1 else 1) * int (digits_value 0 u))))"

text \<open>
  The arguments tmi.js passes to the message handler. \<open>tags\<close> has type \<open>any\<close>: \<open>None\<close>
  is a malformed event whose tags are null or undefined.
\<close>

record twitch_message =
  msg_channel :: string
  msg_tags :: "tags option"
  msg_text :: string
  msg_self :: bool

text \<open>
  The object literal passed to \<open>onMessage\<close> (lines 23 to 38); it has no \<open>platform\<close>
  property. The badges object is the
  list of its entries (distinct names, none of them a number), so that \<open>Object.keys\<close>
  gives the names in the order of the list.
\<close>

definition twitch_event :: "twitch_message \<Rightarrow> tags \<Rightarrow> adapter_event" where
  "twitch_event m tg =
     (let subscriptionMonths =
            (case tag_badges tg of
               None \<Rightarrow> None
             | Some bs \<Rightarrow>
                 (case map_of bs ''subscriber'' of
                    None \<Rightarrow> None
                  | Some v \<Rightarrow> if v \<noteq> [] then Some (parseInt10 v) else None))
      in \<lparr> ev_username =
             (case display_name tg of
                Some (c # cs) \<Rightarrow> c # cs
              | _ \<Rightarrow> (case tag_username tg of
                         Some (c # cs) \<Rightarrow> c # cs
                       | _ \<Rightarrow> ''unknown'')),
           ev_message = msg_text m,
           ev_badges = Some (map fst (case tag_badges tg of None \<Rightarrow> [] | Some bs \<Rightarrow> bs)),
           ev_color = (if truthy (tag_color tg) then tag_color tg else None),
           ev_raw = Some \<lparr> raw_channel = Some (msg_channel m), raw_tags = Some tg,
                           raw_subscriptionMonths = subscriptionMonths,
                           raw_badges = None \<rparr>,
           ev_platform = None \<rparr>)"

text \<open>
  The handler registered with \<open>client.on('message', ...)\<close>. Reading \<open>tags.badges\<close> of
  null or undefined tags throws a TypeError inside the \<open>try\<close>; so does whatever the
  callback \<open>onMessage\<close> throws.
\<close>

definition message_handler ::
    "bool \<Rightarrow> (adapter_event \<Rightarrow> unit io) \<Rightarrow> twitch_message \<Rightarrow> unit io" where
  "message_handler debug onMessage m =
     (if msg_self m then ret ()
      else
        try_catch
          (case msg_tags m of
             None \<Rightarrow> throw (TypeError ''Cannot read properties of undefined (reading badges)'')
           | Some tg \<Rightarrow>
               bind (emit (OnMessage (twitch_event m tg)))
                 (\<lambda>_. onMessage (twitch_event m tg)))
          (\<lambda>error.
             if debug
             then emit (ConsoleError (''[twitch] message processing error: '' @ error_message error))
             else ret ()))"

text \<open>
  The events of a connection, handled one after the other; an exception that left the
  handler would end the processing.
\<close>

definition handle_all ::
    "bool \<Rightarrow> (adapter_event \<Rightarrow> unit io) \<Rightarrow> twitch_message list \<Rightarrow> unit io" where
  "handle_all debug onMessage ms = for_each (message_handler debug onMessage) ms"

fun onMessage_calls :: "effect list \<Rightarrow> adapter_event list" where
  "onMessage_calls [] = []"
| "onMessage_calls (OnMessage e # t) = e # onMessage_calls t"
| "onMessage_calls (_ # t) = onMessage_calls t"

text \<open>
  The object \<open>startTwitch\<close> receives: \<open>None\<close> is a property the caller did not give.
  \<open>startTwitch\<close> reads \<open>channel\<close>, \<open>onMessage\<close> and \<open>debug\<close>; the server passes
  \<open>username\<close>, \<open>oauth\<close> and \<open>channels\<close> as well.
\<close>

record twitch_config =
  cfg_channel :: "string option"
  cfg_username :: "string option"
  cfg_oauth :: "string option"
  cfg_channels :: "string list option"
  cfg_debug :: "bool option"

datatype stop_fn = StopTwitch string | StopTikTok | StopYouTube | ClearInterval

text \<open>\<open>await client.connect()\<close>; \<open>connect\<close> is the outcome tmi.js gives for the channel.\<close>

definition client_connect :: "(string \<Rightarrow> error option) \<Rightarrow> string \<Rightarrow> unit io" where
  "client_connect connect ch =
     (case connect ch of
        None \<Rightarrow> emit ClientConnect
      | Some e \<Rightarrow> (Inl e, [ClientConnect]))"

definition startTwitch :: "(string \<Rightarrow> error option) \<Rightarrow> twitch_config \<Rightarrow> stop_fn io" where
  "startTwitch connect cfg =
     (let debug = (case cfg_debug cfg of None \<Rightarrow> False | Some d \<Rightarrow> d)
      in case cfg_channel cfg of
           None \<Rightarrow> throw (TypeError ''Cannot read properties of undefined (reading startsWith)'')
         | Some channel \<Rightarrow>
             (let normalizedChannel = (if take 1 channel = ''#'' then drop 1 channel else channel)
              in bind (emit (NewClient debug [normalizedChannel])) (\<lambda>_.
                 bind (emit (ClientOn ''message'')) (\<lambda>_.
                 bind (emit (ClientOn ''connected'')) (\<lambda>_.
                 bind (emit (ClientOn ''disconnected'')) (\<lambda>_.
                 bind (client_connect connect normalizedChannel) (\<lambda>_.
                 bind (if debug
                       then emit (ConsoleLog (''[twitch] connected to channel: #'' @ normalizedChannel))
                       else ret ()) (\<lambda>_.
                 ret (StopTwitch normalizedChannel)))))))))"

section \<open>server/src/index.ts: the adapters\<close>

text \<open>The \<open>onMessage\<close> callback the server gives to each adapter (lines 152 to 155).\<close>

definition server_onMessage ::
    "platform \<Rightarrow> bool \<Rightarrow> (wire \<Rightarrow> string) \<Rightarrow> string \<Rightarrow> int \<Rightarrow> ws_client list
       \<Rightarrow> adapter_event \<Rightarrow> unit io" where
  "server_onMessage p DEBUG stringify uuid now clients evt =
     (let normalized = normalize_event uuid now (with_platform p evt)
      in broadcast DEBUG stringify clients (Chat normalized))"

text \<open>\<open>s.split(',').map(s => s.trim()).filter(Boolean)\<close>.\<close>

fun split_on :: "char \<Rightarrow> string \<Rightarrow> string list" where
  "split_on sep [] = [[]]"
| "split_on sep (c # cs) =
     (if c = sep then [] # split_on sep cs
      else (case split_on sep cs of
              [] \<Rightarrow> [[c]]
            | w # ws \<Rightarrow> (c # w) # ws))"

definition trim :: "string \<Rightarrow> string" where
  "trim s = rev (dropWhile is_space (rev (dropWhile is_space s)))"

definition channel_list :: "string \<Rightarrow> string list" where
  "channel_list s = filter (\<lambda>w. w \<noteq> []) (map trim (split_on CHR '','' s))"

record tiktok_config =
  tk_username :: string
  tk_debug :: bool

record youtube_config =
  yt_channelId :: string
  yt_retryWhenOffline :: bool
  yt_debug :: bool

type_synonym env = "string \<Rightarrow> string option"

text \<open>\<open>await p\<close>: the promise either rejects, which throws here, or resolves.\<close>

definition await :: "error + 'a \<Rightarrow> 'a io" where
  "await outcome = (outcome, [])"

text \<open>
  The object literals given to the start functions (without the \<open>onMessage\<close> callback,
  which is \<open>server_onMessage\<close>). The one for Twitch has \<open>channels\<close> and no \<open>channel\<close>.
\<close>

definition twitch_options :: "bool \<Rightarrow> env \<Rightarrow> twitch_config" where
  "twitch_options DEBUG env =
     \<lparr> cfg_channel = None,
       cfg_username = env ''TWITCH_USERNAME'',
       cfg_oauth = env ''TWITCH_OAUTH'',
       cfg_channels = map_option channel_list (env ''TWITCH_CHANNELS''),
       cfg_debug = Some DEBUG \<rparr>"

definition tiktok_options :: "bool \<Rightarrow> string \<Rightarrow> tiktok_config" where
  "tiktok_options DEBUG username = \<lparr> tk_username = username, tk_debug = DEBUG \<rparr>"

definition youtube_options :: "bool \<Rightarrow> env \<Rightarrow> string \<Rightarrow> youtube_config" where
  "youtube_options DEBUG env channelId =
     \<lparr> yt_channelId = channelId,
       yt_retryWhenOffline =
         (toLowerCase
            (case env ''YT_RETRY_WHEN_OFFLINE'' of
               Some (d # ds) \<Rightarrow> d # ds
             | _ \<Rightarrow> ''true'')
          = ''true''),
       yt_debug = DEBUG \<rparr>"

text \<open>
  The three guarded blocks of \<open>initializeAdapters\<close>, each taking \<open>stopFns\<close> and giving
  it back. The start functions are parameters, each giving the outcome of the promise
  it returns for a configuration; \<open>StartAdapter\<close> marks the call.
\<close>

definition twitch_block ::
    "(twitch_config \<Rightarrow> error + stop_fn) \<Rightarrow> bool \<Rightarrow> env \<Rightarrow> stop_fn list \<Rightarrow> stop_fn list io" where
  "twitch_block start DEBUG env stopFns =
     (if truthy (env ''TWITCH_USERNAME'') \<and> truthy (env ''TWITCH_OAUTH'')
         \<and> truthy (env ''TWITCH_CHANNELS'')
      then
        try_catch
          (bind (emit (StartAdapter Twitch)) (\<lambda>_.
           bind (await (start (twitch_options DEBUG env))) (\<lambda>stopTwitch.
           ret (stopFns @ [stopTwitch]))))
          (\<lambda>error.
             bind (emit (ConsoleError (''[twitch] Failed to start: '' @ error_message error)))
               (\<lambda>_. ret stopFns))
      else
        bind (if DEBUG then emit (ConsoleLog ''[twitch] skipped (missing env)'') else ret ())
          (\<lambda>_. ret stopFns))"

definition tiktok_block ::
    "(tiktok_config \<Rightarrow> error + stop_fn) \<Rightarrow> bool \<Rightarrow> env \<Rightarrow> stop_fn list \<Rightarrow> stop_fn list io" where
  "tiktok_block start DEBUG env stopFns =
     (case env ''TIKTOK_USERNAME'' of
        Some (c # cs) \<Rightarrow>
          try_catch
            (bind (emit (StartAdapter TikTok)) (\<lambda>_.
             bind (await (start (tiktok_options DEBUG (c # cs)))) (\<lambda>stopTikTok.
             ret (stopFns @ [stopTikTok]))))
            (\<lambda>error.
               bind (emit (ConsoleError (''[tiktok] Failed to start: '' @ error_message error)))
                 (\<lambda>_. ret stopFns))
      | _ \<Rightarrow>
          bind (if DEBUG then emit (ConsoleLog ''[tiktok] skipped (missing env)'') else ret ())
            (\<lambda>_. ret stopFns))"

definition youtube_block ::
    "(youtube_config \<Rightarrow> error + stop_fn) \<Rightarrow> bool \<Rightarrow> env \<Rightarrow> stop_fn list \<Rightarrow> stop_fn list io" where
  "youtube_block start DEBUG env stopFns =
     (case env ''YT_CHANNEL_ID'' of
        Some (c # cs) \<Rightarrow>
          bind (emit (ConsoleLog (''[youtube] starting with channel id: '' @ c # cs))) (\<lambda>_.
          try_catch
            (bind (emit (StartAdapter YouTube)) (\<lambda>_.
             bind (await (start (youtube_options DEBUG env (c # cs)))) (\<lambda>stopYouTube.
             ret (stopFns @ [stopYouTube]))))
            (\<lambda>error.
               bind (emit (ConsoleError (''[youtube] Failed to start: '' @ error_message error)))
                 (\<lambda>_. ret stopFns)))
      | _ \<Rightarrow>
          bind (emit (ConsoleWarn
                  ''[youtube] skipped: set YT_CHANNEL_ID in your environment to enable YouTube''))
            (\<lambda>_. ret stopFns))"

text \<open>
  The fake-message timer: the interval is registered and its clearing function pushed
  (the random messages it sends later are outside \<open>initializeAdapters\<close>).
\<close>

definition fake_block :: "env \<Rightarrow> stop_fn list \<Rightarrow> stop_fn list io" where
  "fake_block env stopFns =
     (if env ''FAKE_MESSAGES'' = Some ''true''
      then bind (emit (SetInterval 2000)) (\<lambda>_. ret (stopFns @ [ClearInterval]))
      else ret stopFns)"

definition initializeAdapters ::
    "(twitch_config \<Rightarrow> error + stop_fn) \<Rightarrow> (tiktok_config \<Rightarrow> error + stop_fn)
       \<Rightarrow> (youtube_config \<Rightarrow> error + stop_fn) \<Rightarrow> bool \<Rightarrow> env \<Rightarrow> stop_fn list \<Rightarrow> stop_fn list io" where
  "initializeAdapters startTw startTk startYt DEBUG env stopFns =
     bind (twitch_block startTw DEBUG env stopFns) (\<lambda>s1.
     bind (tiktok_block startTk DEBUG env s1) (\<lambda>s2.
     bind (youtube_block startYt DEBUG env s2) (\<lambda>s3.
     fake_block env s3)))"

text \<open>
  The start function the server passes for Twitch: the promise of \<open>startTwitch\<close>, whose
  own effects (the tmi.js client it creates) are not part of what the server logs.
\<close>

definition server_startTwitch ::
    "(string \<Rightarrow> error option) \<Rightarrow> twitch_config \<Rightarrow> error + stop_fn" where
  "server_startTwitch connect cfg = fst (startTwitch connect cfg)"

fun start_calls :: "effect list \<Rightarrow> platform list" where
  "start_calls [] = []"
| "start_calls (StartAdapter p # t) = p # start_calls t"
| "start_calls (_ # t) = start_calls t"

section \<open>client/src/components/ChatMessage.tsx: the subscriber badge\<close>

text \<open>
  \<open>raw?.tags?.badges?.subscriber\<close> and \<open>raw?.badges?.subscriber\<close>, parsed when truthy
  and kept unless the result is NaN (methods 2 and 3 of \<open>getSubscriptionMonths\<close>).
\<close>

definition parsed_subscriber :: "(string \<times> string) list option \<Rightarrow> jsnum option" where
  "parsed_subscriber badges =
     (case badges of
        None \<Rightarrow> None
      | Some bs \<Rightarrow>
          (case map_of bs ''subscriber'' of
             Some (c # cs) \<Rightarrow>
               (case parseInt10 (c # cs) of NaN \<Rightarrow> None | Num n \<Rightarrow> Some (Num n))
           | _ \<Rightarrow> None))"

text \<open>Methods 2 and 3, tried when method 1 gives nothing.\<close>

definition months_from_badges :: "raw_data \<Rightarrow> jsnum option" where
  "months_from_badges raw =
     (case parsed_subscriber (case raw_tags raw of None \<Rightarrow> None | Some tg \<Rightarrow> tag_badges tg) of
        Some k \<Rightarrow> Some k
      | None \<Rightarrow> parsed_subscriber (raw_badges raw))"

definition getSubscriptionMonths :: "chat_message \<Rightarrow> jsnum option" where
  "getSubscriptionMonths message =
     (let raw = cm_raw message
      in if cm_platform message \<noteq> Twitch then None
         else case raw_subscriptionMonths raw of
                Some (Num n) \<Rightarrow> if n \<noteq> 0 then Some (Num n) else months_from_badges raw
              | _ \<Rightarrow> months_from_badges raw)"

text \<open>\<open>const months = subscriptionMonths || 1\<close>: null, NaN and 0 give 1.\<close>

definition months_or_1 :: "jsnum option \<Rightarrow> int" where
  "months_or_1 subscriptionMonths =
     (case subscriptionMonths of
        Some (Num n) \<Rightarrow> if n \<noteq> 0 then n else 1
      | _ \<Rightarrow> 1)"

definition isTwitchSubscriber :: "chat_message \<Rightarrow> string \<Rightarrow> bool" where
  "isTwitchSubscriber message badge =
     (cm_platform message = Twitch \<and> toLowerCase badge = ''subscriber'')"

text \<open>
  Modelled from the spec: \<open>getSubscriptionBadgeUrl\<close> of the badge context
  (client/src/contexts/BadgeContext, not among the sources). The catalog lists the
  subscription tiers (month counts) with their image references. The exact tier is
  taken when the catalog has it; otherwise the greatest tier not exceeding the month
  count; when no tier is that small, the lowest tier; nothing for an empty catalog.
\<close>

definition resolve_tier :: "int list \<Rightarrow> int \<Rightarrow> int option" where
  "resolve_tier tiers months =
     (if months \<in> set tiers then Some months
      else case filter (\<lambda>t. t \<le> months) tiers of
             t # ts \<Rightarrow> Some (fold max ts t)
           | [] \<Rightarrow> (case tiers of
                      [] \<Rightarrow> None
                    | t # ts \<Rightarrow> Some (fold min ts t)))"

text \<open>
  Modelled from the spec: the image reference of the resolved tier, as
  \<open>getSubscriptionBadgeUrl\<close> (not among the sources) returns it.
\<close>

definition getSubscriptionBadgeUrl :: "(int \<times> string) list \<Rightarrow> int \<Rightarrow> string option" where
  "getSubscriptionBadgeUrl catalog months =
     (case resolve_tier (map fst catalog) months of
        None \<Rightarrow> None
      | Some t \<Rightarrow> map_of catalog t)"

text \<open>
  The subscriber case of the badge loop (lines 590 to 606): the image shown for a
  badge of a message, if any.
\<close>

definition subscriber_badge ::
    "(int \<times> string) list \<Rightarrow> chat_message \<Rightarrow> string \<Rightarrow> string option" where
  "subscriber_badge catalog message badge =
     (if isTwitchSubscriber message badge
      then getSubscriptionBadgeUrl catalog (months_or_1 (getSubscriptionMonths message))
      else None)"

section \<open>Predicates and values used in the statements\<close>

text \<open>
  A viewer is served by a publish when \<open>wss.clients\<close> holds exactly one socket of that
  viewer, the socket is open, and its \<open>send\<close> takes the frame of that publish.
\<close>

definition accepting :: "(wire \<Rightarrow> string) \<Rightarrow> nat \<Rightarrow> wire \<times> ws_client list \<Rightarrow> bool" where
  "accepting stringify v p =
     (case filter (\<lambda>c. client_id c = v) (snd p) of
        [c] \<Rightarrow> readyState c = OPEN \<and> send_throws c (stringify (fst p)) = None
      | _ \<Rightarrow> False)"

text \<open>What a start call adds to \<open>stopFns\<close>: the stop function it returns, if it returns.\<close>

definition registered :: "error + stop_fn \<Rightarrow> stop_fn list" where
  "registered outcome = (case outcome of Inl e \<Rightarrow> [] | Inr stop \<Rightarrow> [stop])"

text \<open>The environment keys each guard of \<open>initializeAdapters\<close> tests (lines 146, 167, 186).\<close>

fun required_keys :: "platform \<Rightarrow> string list" where
  "required_keys Twitch = [''TWITCH_USERNAME'', ''TWITCH_OAUTH'', ''TWITCH_CHANNELS'']"
| "required_keys TikTok = [''TIKTOK_USERNAME'']"
| "required_keys YouTube = [''YT_CHANNEL_ID'']"

text \<open>Concrete sockets, messages, callbacks and environments for the examples.\<close>

definition demo_stringify :: "wire \<Rightarrow> string" where
  "demo_stringify msg = (case msg of Chat m \<Rightarrow> cm_message m | Control w \<Rightarrow> ws_type w)"

definition accepts_all :: "string \<Rightarrow> error option" where
  "accepts_all data = None"

definition rejects_all :: "string \<Rightarrow> error option" where
  "rejects_all data = Some (Error ''socket failure'')"

definition viewer :: "nat \<Rightarrow> ready_state \<Rightarrow> (string \<Rightarrow> error option) \<Rightarrow> ws_client" where
  "viewer n st s = \<lparr> client_id = n, readyState = st, send_throws = s \<rparr>"

definition chat :: "string \<Rightarrow> wire" where
  "chat text = Chat \<lparr> cm_id = ''id-'' @ text, cm_ts = 0, cm_platform = Twitch,
                      cm_username = ''ann'', cm_message = text, cm_badges = [],
                      cm_color = None, cm_raw = empty_raw \<rparr>"

definition two_publishes :: "(wire \<times> ws_client list) list" where
  "two_publishes =
     [(chat ''a'', [viewer 1 OPEN accepts_all, viewer 2 OPEN accepts_all]),
      (chat ''b'', [viewer 1 OPEN rejects_all, viewer 2 OPEN accepts_all])]"

definition two_good_publishes :: "(wire \<times> ws_client list) list" where
  "two_good_publishes =
     [(chat ''a'', [viewer 1 OPEN accepts_all, viewer 2 OPEN accepts_all]),
      (chat ''b'', [viewer 2 OPEN accepts_all, viewer 3 CLOSED accepts_all,
                   viewer 1 OPEN accepts_all])]"

definition throwing_callback :: "adapter_event \<Rightarrow> unit io" where
  "throwing_callback evt = throw (Error ''callback failed'')"

definition plain_tags :: tags where
  "plain_tags = \<lparr> display_name = None, tag_username = Some ''ann'', tag_badges = None,
                  tag_color = None \<rparr>"

definition subscriber_tags :: tags where
  "subscriber_tags = \<lparr> display_name = Some ''Ann'', tag_username = Some ''ann'',
                       tag_badges = Some [(''subscriber'', ''37''), (''vip'', ''1'')],
                       tag_color = Some ''#ff0000'' \<rparr>"

definition good_message :: twitch_message where
  "good_message = \<lparr> msg_channel = ''#chan'', msg_tags = Some plain_tags, msg_text = ''hi'',
                    msg_self = False \<rparr>"

definition subscriber_message :: twitch_message where
  "subscriber_message = \<lparr> msg_channel = ''#chan'', msg_tags = Some subscriber_tags,
                          msg_text = ''hello'', msg_self = False \<rparr>"

definition malformed_message :: twitch_message where
  "malformed_message = \<lparr> msg_channel = ''#chan'', msg_tags = None, msg_text = ''??'',
                         msg_self = False \<rparr>"

definition self_message :: twitch_message where
  "self_message = \<lparr> msg_channel = ''#chan'', msg_tags = Some plain_tags, msg_text = ''echo'',
                    msg_self = True \<rparr>"





definition connect_ok :: "string \<Rightarrow> error option" where
  "connect_ok ch = None"

definition tiktok_ok :: "tiktok_config \<Rightarrow> error + stop_fn" where
  "tiktok_ok cfg = Inr StopTikTok"

definition tiktok_fails :: "tiktok_config \<Rightarrow> error + stop_fn" where
  "tiktok_fails cfg = Inl (Error ''user not live'')"

definition youtube_ok :: "youtube_config \<Rightarrow> error + stop_fn" where
  "youtube_ok cfg = Inr StopYouTube"

definition youtube_fails :: "youtube_config \<Rightarrow> error + stop_fn" where
  "youtube_fails cfg = Inl (Error ''channel offline'')"

definition no_twitch_env :: env where
  "no_twitch_env = map_of [(''TWITCH_USERNAME'', ''bot''), (''TWITCH_CHANNELS'', ''#a, b''),
                           (''TIKTOK_USERNAME'', ''ann''), (''YT_CHANNEL_ID'', ''UC1'')]"

definition all_keys_env :: env where
  "all_keys_env = map_of [(''TWITCH_USERNAME'', ''bot''), (''TWITCH_OAUTH'', ''oauth:x''),
                          (''TWITCH_CHANNELS'', ''#a, b''), (''TIKTOK_USERNAME'', ''ann''),
                          (''YT_CHANNEL_ID'', ''UC1'')]"

definition empty_key_env :: env where
  "empty_key_env = map_of [(''TIKTOK_USERNAME'', []), (''YT_CHANNEL_ID'', ''UC1'')]"

definition twitch_env :: env where
  "twitch_env = map_of [(''TWITCH_USERNAME'', ''bot''), (''TWITCH_OAUTH'', ''oauth:x''),
                        (''TWITCH_CHANNELS'', ''#a, b'')]"

definition tier_catalog :: "(int \<times> string) list" where
  "tier_catalog = [(1, ''sub-1.png''), (3, ''sub-3.png''), (6, ''sub-6.png''),
                   (12, ''sub-12.png''), (24, ''sub-24.png'')]"

definition subscriber_chat :: chat_message where
  "subscriber_chat =
     normalize_event ''id-37'' 1000
       (with_platform Twitch (twitch_event subscriber_message subscriber_tags))"

definition plain_chat :: chat_message where
  "plain_chat =
     normalize_event ''id-1'' 1000 (with_platform Twitch (twitch_event good_message plain_tags))"

definition overlay_location :: location where
  "overlay_location = \<lparr> search = [(''private'', ''no'')], pathname = ''/overlay/'' \<rparr>"

section \<open>Facts about the effect model\<close>

lemma bind_ret [simp]: "bind (ret x) f = f x"
  by (simp add: bind_def ret_def split: prod.splits)

lemma bind_emit [simp]: "bind (emit e) f = (fst (f ()), e # snd (f ()))"
  by (simp add: bind_def emit_def split: prod.splits)

lemma bind_Inr: "fst m = Inr x \<Longrightarrow> bind m f = (fst (f x), snd m @ snd (f x))"
  by (cases m) (simp add: bind_def split: prod.splits)

text \<open>A loop whose body never throws runs every iteration, and never throws.\<close>

lemma for_each_total:
  "(\<And>x. fst (body x) = Inr ()) \<Longrightarrow> fst (for_each body xs) = Inr ()"
  by (induction xs) (simp_all add: bind_Inr ret_def)

lemma for_each_effects:
  "(\<And>x. fst (body x) = Inr ()) \<Longrightarrow>
     snd (for_each body xs) = concat (map (\<lambda>x. snd (body x)) xs)"
  by (induction xs) (simp_all add: bind_Inr ret_def)

lemma send_calls_append [simp]: "send_calls (a @ b) = send_calls a @ send_calls b"
  by (induction a rule: send_calls.induct) auto

lemma stringify_calls_append [simp]:
  "stringify_calls (a @ b) = stringify_calls a @ stringify_calls b"
  by (induction a rule: stringify_calls.induct) auto

lemma console_errors_append [simp]:
  "console_errors (a @ b) = console_errors a @ console_errors b"
  by (induction a rule: console_errors.induct) auto

lemma frames_of_append [simp]: "frames_of v (a @ b) = frames_of v a @ frames_of v b"
  by (induction v a rule: frames_of.induct) auto

lemma start_calls_append [simp]: "start_calls (a @ b) = start_calls a @ start_calls b"
  by (induction a rule: start_calls.induct) auto

lemma in_stringify_calls: "JsonStringify x \<in> set t \<longleftrightarrow> x \<in> set (stringify_calls t)"
  by (induction t rule: stringify_calls.induct) auto

section \<open>The Broadcast Hub\<close>

lemma fst_send_to [simp]: "fst (send_to DEBUG data c) = Inr ()"
  by (simp add: send_to_def try_catch_def client_send_def emit_def ret_def split: option.splits)

lemma snd_send_to:
  "snd (send_to DEBUG data c) =
     (if readyState c = OPEN then
        (case send_throws c data of
           None \<Rightarrow> [WsSent (client_id c) data]
         | Some e \<Rightarrow>
             WsSendThrew (client_id c) data
               # (if DEBUG then [ConsoleError (''WS send error: '' @ error_message e)] else []))
      else [])"
  by (simp add: send_to_def try_catch_def client_send_def emit_def ret_def split: option.splits)

lemma snd_broadcast:
  "snd (broadcast DEBUG stringify clients msg) =
     JsonStringify msg # concat (map (\<lambda>c. snd (send_to DEBUG (stringify msg) c)) clients)"
  by (simp add: broadcast_def for_each_effects)

lemma fst_broadcast [simp]: "fst (broadcast DEBUG stringify clients msg) = Inr ()"
  by (simp add: broadcast_def for_each_total)

lemma send_calls_sends:
  "send_calls (concat (map (\<lambda>c. snd (send_to DEBUG data c)) clients)) =
     map (\<lambda>c. (client_id c, data)) (filter (\<lambda>c. readyState c = OPEN) clients)"
  by (induction clients) (auto simp: snd_send_to split: option.splits)

lemma stringify_calls_sends:
  "stringify_calls (concat (map (\<lambda>c. snd (send_to DEBUG data c)) clients)) = []"
  by (induction clients) (auto simp: snd_send_to split: option.splits)

lemma console_errors_sends:
  "console_errors (concat (map (\<lambda>c. snd (send_to DEBUG data c)) clients)) =
     (if DEBUG
      then concat (map (\<lambda>c. case send_throws c data of
                               None \<Rightarrow> []
                             | Some e \<Rightarrow> [''WS send error: '' @ error_message e])
                     (filter (\<lambda>c. readyState c = OPEN) clients))
      else [])"
  by (induction clients) (auto simp: snd_send_to split: option.splits)

lemma frames_of_sends:
  "frames_of v (concat (map (\<lambda>c. snd (send_to DEBUG data c)) clients)) =
     map (\<lambda>c. data)
       (filter (\<lambda>c. client_id c = v \<and> readyState c = OPEN \<and> send_throws c data = None)
          clients)"
  by (induction clients) (auto simp: snd_send_to split: option.splits)

lemma stringify_calls_broadcast:
  "stringify_calls (snd (broadcast DEBUG stringify clients msg)) = [msg]"
  by (simp add: snd_broadcast stringify_calls_sends)

lemma frames_of_broadcast:
  "frames_of v (snd (broadcast DEBUG stringify clients msg)) =
     map (\<lambda>c. stringify msg)
       (filter (\<lambda>c. readyState c = OPEN \<and> send_throws c (stringify msg) = None)
          (filter (\<lambda>c. client_id c = v) clients))"
  by (simp add: snd_broadcast frames_of_sends conj_commute conj_left_commute)

text \<open>
  C1, as amended. For every published event \<open>broadcast\<close> returns normally, calls
  \<open>JSON.stringify\<close> exactly once, and calls \<open>send\<close> with that one frame on every socket
  that is OPEN, in iteration order, whether or not an earlier send threw; every open
  socket whose send does not throw gets the frame. A send that throws is caught; it is
  written to the console only when DEBUG is set, and silently dropped otherwise.
\<close>

theorem broadcast_fan_out:
  "fst (broadcast DEBUG stringify clients msg) = Inr ()
   \<and> stringify_calls (snd (broadcast DEBUG stringify clients msg)) = [msg]
   \<and> send_calls (snd (broadcast DEBUG stringify clients msg)) =
       map (\<lambda>c. (client_id c, stringify msg)) (filter (\<lambda>c. readyState c = OPEN) clients)
   \<and> frames_of v (snd (broadcast DEBUG stringify clients msg)) =
       map (\<lambda>c. stringify msg)
         (filter (\<lambda>c. readyState c = OPEN \<and> send_throws c (stringify msg) = None)
            (filter (\<lambda>c. client_id c = v) clients))
   \<and> console_errors (snd (broadcast DEBUG stringify clients msg)) =
       (if DEBUG
        then concat (map (\<lambda>c. case send_throws c (stringify msg) of
                                 None \<Rightarrow> []
                               | Some e \<Rightarrow> [''WS send error: '' @ error_message e])
                       (filter (\<lambda>c. readyState c = OPEN) clients))
        else [])"
  by (simp add: frames_of_broadcast)
     (simp add: snd_broadcast send_calls_sends stringify_calls_sends console_errors_sends)

text \<open>
  With DEBUG set, a throwing first socket and a closed second one do not keep the third
  from its frame, and the error is on the console.
\<close>

theorem broadcast_fan_out_witness:
  "snd (broadcast True demo_stringify
          [viewer 1 OPEN rejects_all, viewer 2 CLOSED accepts_all, viewer 3 OPEN accepts_all]
          (chat ''a''))
     = [JsonStringify (chat ''a''), WsSendThrew 1 ''a'',
        ConsoleError ''WS send error: socket failure'', WsSent 3 ''a'']
   \<and> send_calls (snd (broadcast True demo_stringify
          [viewer 1 OPEN rejects_all, viewer 2 CLOSED accepts_all, viewer 3 OPEN accepts_all]
          (chat ''a'')))
     = [(1, ''a''), (3, ''a'')]"
  using broadcast_fan_out [of True demo_stringify
      "[viewer 1 OPEN rejects_all, viewer 2 CLOSED accepts_all, viewer 3 OPEN accepts_all]"
      "chat ''a''" 3]
  by (simp add: snd_broadcast snd_send_to viewer_def rejects_all_def accepts_all_def
      demo_stringify_def chat_def)

text \<open>
  C1 as stated fails where it says the error is logged: with DEBUG unset (the default),
  the send to an open viewer throws, \<open>broadcast\<close> returns, and the console has nothing.
\<close>

theorem broadcast_logs_counterexample:
  "readyState (viewer 1 OPEN rejects_all) = OPEN
   \<and> send_throws (viewer 1 OPEN rejects_all) (demo_stringify (chat ''a''))
       = Some (Error ''socket failure'')
   \<and> fst (broadcast False demo_stringify [viewer 1 OPEN rejects_all] (chat ''a'')) = Inr ()
   \<and> console_errors (snd (broadcast False demo_stringify [viewer 1 OPEN rejects_all] (chat ''a'')))
       = []"
  by (simp add: snd_broadcast snd_send_to viewer_def rejects_all_def)

lemma snd_publish_all:
  "snd (publish_all DEBUG stringify ps) =
     concat (map (\<lambda>p. snd (broadcast DEBUG stringify (snd p) (fst p))) ps)"
  unfolding publish_all_def
  by (subst for_each_effects) (auto simp: case_prod_beta)

lemma fst_publish_all: "fst (publish_all DEBUG stringify ps) = Inr ()"
  unfolding publish_all_def by (rule for_each_total) (simp add: case_prod_beta)

lemma frames_of_accepting:
  assumes "accepting stringify v p"
  shows "frames_of v (snd (broadcast DEBUG stringify (snd p) (fst p))) = [stringify (fst p)]"
proof -
  from assms obtain c where c: "filter (\<lambda>c. client_id c = v) (snd p) = [c]"
      "readyState c = OPEN" "send_throws c (stringify (fst p)) = None"
    by (auto simp: accepting_def split: list.splits)
  show ?thesis
    unfolding frames_of_broadcast c(1) using c(2,3) by simp
qed

lemma frames_of_publish_all:
  "list_all (accepting stringify v) ps \<Longrightarrow>
     frames_of v (snd (publish_all DEBUG stringify ps)) = map (\<lambda>p. stringify (fst p)) ps"
  by (induction ps) (simp_all add: snd_publish_all frames_of_accepting)

text \<open>
  C2, as amended. For any two viewers that are open at every publish of a sequence and
  whose sends all succeed, the frames each receives are the serialized events of the
  sequence, in the order the Hub published them; so the two sequences are the same.
\<close>

theorem same_frames_when_sends_succeed:
  "list_all (accepting stringify v) ps \<Longrightarrow> list_all (accepting stringify w) ps \<Longrightarrow>
     frames_of v (snd (publish_all DEBUG stringify ps)) = map (\<lambda>p. stringify (fst p)) ps
     \<and> frames_of w (snd (publish_all DEBUG stringify ps))
         = frames_of v (snd (publish_all DEBUG stringify ps))"
  by (simp add: frames_of_publish_all)

theorem same_frames_when_sends_succeed_witness:
  "list_all (accepting demo_stringify 1) two_good_publishes
   \<and> list_all (accepting demo_stringify 2) two_good_publishes
   \<and> frames_of 1 (snd (publish_all True demo_stringify two_good_publishes)) = [''a'', ''b'']
   \<and> frames_of 2 (snd (publish_all True demo_stringify two_good_publishes)) = [''a'', ''b'']"
proof -
  have h1: "list_all (accepting demo_stringify 1) two_good_publishes"
    by (simp add: accepting_def two_good_publishes_def viewer_def accepts_all_def)
  have h2: "list_all (accepting demo_stringify 2) two_good_publishes"
    by (simp add: accepting_def two_good_publishes_def viewer_def accepts_all_def)
  show ?thesis
    using h1 h2 same_frames_when_sends_succeed [OF h1 h2, of True]
    by (simp add: two_good_publishes_def demo_stringify_def chat_def)
qed

text \<open>
  C2 as stated fails when a send throws: viewers 1 and 2 are both open at both
  publishes, the second send to viewer 1 throws and is caught, and viewer 1 is left
  with one frame where viewer 2 has two.
\<close>

theorem same_frames_counterexample:
  "readyState (viewer 1 OPEN accepts_all) = OPEN
   \<and> readyState (viewer 1 OPEN rejects_all) = OPEN
   \<and> readyState (viewer 2 OPEN accepts_all) = OPEN
   \<and> frames_of 1 (snd (publish_all False demo_stringify two_publishes)) = [''a'']
   \<and> frames_of 2 (snd (publish_all False demo_stringify two_publishes)) = [''a'', ''b'']"
  by (simp add: snd_publish_all frames_of_broadcast two_publishes_def viewer_def
      accepts_all_def rejects_all_def demo_stringify_def chat_def)

section \<open>The Normalizer\<close>

lemma length_normalize_all [simp]: "length (normalize_all calls) = length calls"
  by (simp add: normalize_all_def)


lemma twitch_event_no_platform: "ev_platform (twitch_event m tg) = None"
  by (simp add: twitch_event_def Let_def)




section \<open>The Twitch message handler\<close>

lemma fst_message_handler [simp]: "fst (message_handler debug onMessage m) = Inr ()"
  by (simp add: message_handler_def try_catch_def throw_def ret_def emit_def bind_def
      split: option.splits prod.splits sum.splits)

lemma snd_message_handler_valid:
  "\<not> msg_self m \<Longrightarrow> msg_tags m = Some tg \<Longrightarrow>
     \<exists>rest. snd (message_handler debug onMessage m) = OnMessage (twitch_event m tg) # rest"
  by (simp add: message_handler_def try_catch_def throw_def ret_def emit_def bind_def
      split: option.splits prod.splits sum.splits)

lemma snd_message_handler_malformed:
  "msg_tags m = None \<Longrightarrow> onMessage_calls (snd (message_handler debug onMessage m)) = []"
  by (simp add: message_handler_def try_catch_def throw_def ret_def emit_def)

lemma snd_handle_all:
  "snd (handle_all debug onMessage ms) =
     concat (map (\<lambda>m. snd (message_handler debug onMessage m)) ms)"
  unfolding handle_all_def by (rule for_each_effects) simp

lemma fst_handle_all: "fst (handle_all debug onMessage ms) = Inr ()"
  unfolding handle_all_def by (rule for_each_total) simp

text \<open>
  C5. No exception leaves the message handler, whatever the event and whatever the
  callback does; so a sequence of events is processed to its end, and what is done for
  each event is what the handler does for that event alone. An event without tags
  reaches no callback, and a valid event that follows any events, malformed ones
  included, is passed to \<open>onMessage\<close>.
\<close>

theorem malformed_event_is_contained:
  "fst (message_handler debug onMessage m) = Inr ()
   \<and> fst (handle_all debug onMessage ms) = Inr ()
   \<and> snd (handle_all debug onMessage ms) =
       concat (map (\<lambda>m. snd (message_handler debug onMessage m)) ms)
   \<and> (msg_tags bad = None \<longrightarrow> onMessage_calls (snd (message_handler debug onMessage bad)) = [])
   \<and> (\<not> msg_self good \<and> msg_tags good = Some tg \<longrightarrow>
        OnMessage (twitch_event good tg)
          \<in> set (snd (handle_all debug onMessage (before @ bad # good # after))))"
proof -
  have "OnMessage (twitch_event good tg)
          \<in> set (snd (handle_all debug onMessage (before @ bad # good # after)))"
    if "\<not> msg_self good" "msg_tags good = Some tg"
  proof -
    from snd_message_handler_valid [OF that] obtain rest
      where "snd (message_handler debug onMessage good) = OnMessage (twitch_event good tg) # rest"
      by blast
    then show ?thesis by (simp add: snd_handle_all)
  qed
  then show ?thesis
    by (simp add: snd_handle_all fst_handle_all snd_message_handler_malformed)
qed

text \<open>
  A malformed event followed by a valid one, with a callback that throws: both
  exceptions are caught and the valid event has reached the callback.
\<close>

theorem malformed_event_is_contained_witness:
  "msg_tags malformed_message = None \<and> \<not> msg_self good_message
   \<and> msg_tags good_message = Some plain_tags
   \<and> handle_all True throwing_callback [malformed_message, good_message] =
       (Inr (),
        [ConsoleError ''[twitch] message processing error: Cannot read properties of undefined (reading badges)'',
         OnMessage (twitch_event good_message plain_tags),
         ConsoleError ''[twitch] message processing error: callback failed''])
   \<and> OnMessage (twitch_event good_message plain_tags)
        \<in> set (snd (handle_all True throwing_callback
                      ([] @ malformed_message # good_message # [])))"
  using malformed_event_is_contained [of True throwing_callback good_message "[]"
      malformed_message good_message plain_tags "[]" "[]"]
  by (simp add: handle_all_def message_handler_def try_catch_def throw_def ret_def emit_def
      bind_def throwing_callback_def malformed_message_def good_message_def)

text \<open>
  C7. For an event whose \<open>self\<close> flag is true the handler returns at once: it has no
  effect at all, so \<open>onMessage\<close> is not invoked for it.
\<close>

theorem self_echo_is_filtered:
  "msg_self m \<Longrightarrow>
     message_handler debug onMessage m = (Inr (), [])
     \<and> onMessage_calls (snd (message_handler debug onMessage m)) = []"
  by (simp add: message_handler_def ret_def)

theorem self_echo_is_filtered_witness:
  "msg_self self_message
   \<and> message_handler True throwing_callback self_message = (Inr (), [])
   \<and> onMessage_calls (snd (message_handler True throwing_callback self_message)) = []"
  using self_echo_is_filtered [of self_message True throwing_callback]
  by (simp add: self_message_def)

lemma stringify_calls_handler:
  "stringify_calls
     (snd (message_handler debug (server_onMessage p DEBUG stringify uuid now clients) m))
     = (if msg_self m then []
        else case msg_tags m of
               None \<Rightarrow> []
             | Some tg \<Rightarrow> [Chat (normalize_event uuid now (with_platform p (twitch_event m tg)))])"
proof (cases "msg_self m")
  case True
  then show ?thesis by (simp add: message_handler_def ret_def)
next
  case False
  show ?thesis
  proof (cases "msg_tags m")
    case None
    with False show ?thesis
      by (simp add: message_handler_def try_catch_def throw_def ret_def emit_def)
  next
    case (Some tg)
    have "fst (server_onMessage p DEBUG stringify uuid now clients (twitch_event m tg)) = Inr ()"
      by (simp add: server_onMessage_def)
    with False Some show ?thesis
      by (simp add: message_handler_def try_catch_def Let_def
          server_onMessage_def stringify_calls_broadcast split: prod.splits sum.splits)
  qed
qed

lemma twitch_event_username:
  "ev_username (twitch_event m tg) \<noteq> []
   \<and> (\<forall>d. display_name tg = Some d \<and> d \<noteq> [] \<longrightarrow> ev_username (twitch_event m tg) = d)
   \<and> (\<forall>u. \<not> truthy (display_name tg) \<and> tag_username tg = Some u \<and> u \<noteq> []
          \<longrightarrow> ev_username (twitch_event m tg) = u)
   \<and> (\<not> truthy (display_name tg) \<and> \<not> truthy (tag_username tg)
          \<longrightarrow> ev_username (twitch_event m tg) = ''unknown'')"
  by (auto simp: twitch_event_def truthy_def Let_def split: option.splits list.splits)

text \<open>
  C8. Every chat message the server serializes for a Twitch event has a non-empty
  username: the display name when it is present and not empty, otherwise the source
  username when that is present and not empty, otherwise the fallback \<open>unknown\<close>.
\<close>

theorem twitch_username_never_empty:
  "JsonStringify (Chat cm)
     \<in> set (snd (message_handler debug
                   (server_onMessage Twitch DEBUG stringify uuid now clients) m)) \<Longrightarrow>
   cm_username cm \<noteq> []
   \<and> (\<exists>tg. msg_tags m = Some tg
         \<and> (\<forall>d. display_name tg = Some d \<and> d \<noteq> [] \<longrightarrow> cm_username cm = d)
         \<and> (\<forall>u. \<not> truthy (display_name tg) \<and> tag_username tg = Some u \<and> u \<noteq> []
                \<longrightarrow> cm_username cm = u)
         \<and> (\<not> truthy (display_name tg) \<and> \<not> truthy (tag_username tg)
                \<longrightarrow> cm_username cm = ''unknown''))"
proof -
  assume "JsonStringify (Chat cm)
     \<in> set (snd (message_handler debug
                   (server_onMessage Twitch DEBUG stringify uuid now clients) m))"
  then have "Chat cm \<in> set (stringify_calls (snd (message_handler debug
                   (server_onMessage Twitch DEBUG stringify uuid now clients) m)))"
    by (simp add: in_stringify_calls)
  then have "\<exists>tg. msg_tags m = Some tg
        \<and> cm = normalize_event uuid now (with_platform Twitch (twitch_event m tg))"
    by (cases "msg_tags m") (auto simp: stringify_calls_handler split: if_splits)
  then obtain tg where tg: "msg_tags m = Some tg"
      and cm: "cm = normalize_event uuid now (with_platform Twitch (twitch_event m tg))"
    by blast
  have u: "cm_username cm = ev_username (twitch_event m tg)"
    by (simp add: cm normalize_event_def with_platform_def)
  show ?thesis
    using twitch_event_username [of m tg] tg by (simp add: u)
qed

text \<open>
  A Twitch event without a display name: the serialized message carries the source
  username.
\<close>

theorem twitch_username_never_empty_witness:
  "JsonStringify
     (Chat (normalize_event ''id-1'' 1000 (with_platform Twitch (twitch_event good_message plain_tags))))
     \<in> set (snd (message_handler False
                   (server_onMessage Twitch False demo_stringify ''id-1'' 1000
                      [viewer 1 OPEN accepts_all]) good_message))
   \<and> cm_username
       (normalize_event ''id-1'' 1000 (with_platform Twitch (twitch_event good_message plain_tags)))
       = ''ann''"
proof -
  have h: "JsonStringify
     (Chat (normalize_event ''id-1'' 1000 (with_platform Twitch (twitch_event good_message plain_tags))))
     \<in> set (snd (message_handler False
                   (server_onMessage Twitch False demo_stringify ''id-1'' 1000
                      [viewer 1 OPEN accepts_all]) good_message))"
    by (simp add: in_stringify_calls stringify_calls_handler good_message_def)
  show ?thesis
    using h twitch_username_never_empty [OF h]
    by (simp add: good_message_def plain_tags_def truthy_def)
qed

section \<open>Starting the adapters\<close>

lemma twitch_block_eq:
  "twitch_block start DEBUG env stopFns =
     (if truthy (env ''TWITCH_USERNAME'') \<and> truthy (env ''TWITCH_OAUTH'')
         \<and> truthy (env ''TWITCH_CHANNELS'')
      then (case start (twitch_options DEBUG env) of
              Inr stop \<Rightarrow> (Inr (stopFns @ [stop]), [StartAdapter Twitch])
            | Inl e \<Rightarrow>
                (Inr stopFns,
                 [StartAdapter Twitch,
                  ConsoleError (''[twitch] Failed to start: '' @ error_message e)]))
      else (Inr stopFns, if DEBUG then [ConsoleLog ''[twitch] skipped (missing env)''] else []))"
  by (simp add: twitch_block_def try_catch_def bind_def emit_def ret_def await_def
      split: sum.splits)

lemma tiktok_block_eq:
  "tiktok_block start DEBUG env stopFns =
     (case env ''TIKTOK_USERNAME'' of
        Some (c # cs) \<Rightarrow>
          (case start (tiktok_options DEBUG (c # cs)) of
             Inr stop \<Rightarrow> (Inr (stopFns @ [stop]), [StartAdapter TikTok])
           | Inl e \<Rightarrow>
               (Inr stopFns,
                [StartAdapter TikTok,
                 ConsoleError (''[tiktok] Failed to start: '' @ error_message e)]))
      | _ \<Rightarrow> (Inr stopFns, if DEBUG then [ConsoleLog ''[tiktok] skipped (missing env)''] else []))"
  by (simp add: tiktok_block_def try_catch_def bind_def emit_def ret_def await_def
      split: sum.splits option.splits list.splits)

lemma youtube_block_eq:
  "youtube_block start DEBUG env stopFns =
     (case env ''YT_CHANNEL_ID'' of
        Some (c # cs) \<Rightarrow>
          (case start (youtube_options DEBUG env (c # cs)) of
             Inr stop \<Rightarrow>
               (Inr (stopFns @ [stop]),
                [ConsoleLog (''[youtube] starting with channel id: '' @ c # cs),
                 StartAdapter YouTube])
           | Inl e \<Rightarrow>
               (Inr stopFns,
                [ConsoleLog (''[youtube] starting with channel id: '' @ c # cs),
                 StartAdapter YouTube,
                 ConsoleError (''[youtube] Failed to start: '' @ error_message e)]))
      | _ \<Rightarrow>
          (Inr stopFns,
           [ConsoleWarn
              ''[youtube] skipped: set YT_CHANNEL_ID in your environment to enable YouTube'']))"
  by (simp add: youtube_block_def try_catch_def bind_def emit_def ret_def await_def
      split: sum.splits option.splits list.splits)

lemma twitch_block_started:
  "(\<exists>fns. fst (twitch_block start DEBUG env stopFns) = Inr fns)
   \<and> start_calls (snd (twitch_block start DEBUG env stopFns)) =
       (if truthy (env ''TWITCH_USERNAME'') \<and> truthy (env ''TWITCH_OAUTH'')
           \<and> truthy (env ''TWITCH_CHANNELS'') then [Twitch] else [])"
  by (simp add: twitch_block_eq split: sum.splits)

lemma tiktok_block_started:
  "(\<exists>fns. fst (tiktok_block start DEBUG env stopFns) = Inr fns)
   \<and> start_calls (snd (tiktok_block start DEBUG env stopFns)) =
       (if truthy (env ''TIKTOK_USERNAME'') then [TikTok] else [])"
  by (simp add: tiktok_block_eq truthy_def split: sum.splits option.splits list.splits)

lemma youtube_block_started:
  "(\<exists>fns. fst (youtube_block start DEBUG env stopFns) = Inr fns)
   \<and> start_calls (snd (youtube_block start DEBUG env stopFns)) =
       (if truthy (env ''YT_CHANNEL_ID'') then [YouTube] else [])"
  by (simp add: youtube_block_eq truthy_def split: sum.splits option.splits list.splits)

lemma fake_block_started:
  "(\<exists>fns. fst (fake_block env stopFns) = Inr fns) \<and> start_calls (snd (fake_block env stopFns)) = []"
  by (simp add: fake_block_def ret_def)

lemma initializeAdapters_blocks:
  obtains s1 s2 s3 s4 where
    "fst (twitch_block startTw DEBUG env stopFns) = Inr s1"
    "fst (tiktok_block startTk DEBUG env s1) = Inr s2"
    "fst (youtube_block startYt DEBUG env s2) = Inr s3"
    "fst (fake_block env s3) = Inr s4"
    "initializeAdapters startTw startTk startYt DEBUG env stopFns =
      (Inr s4,
       snd (twitch_block startTw DEBUG env stopFns) @ snd (tiktok_block startTk DEBUG env s1)
         @ snd (youtube_block startYt DEBUG env s2) @ snd (fake_block env s3))"
proof -
  obtain s1 where s1: "fst (twitch_block startTw DEBUG env stopFns) = Inr s1"
    using twitch_block_started by blast
  obtain s2 where s2: "fst (tiktok_block startTk DEBUG env s1) = Inr s2"
    using tiktok_block_started by blast
  obtain s3 where s3: "fst (youtube_block startYt DEBUG env s2) = Inr s3"
    using youtube_block_started by blast
  obtain s4 where s4: "fst (fake_block env s3) = Inr s4"
    using fake_block_started by blast
  have "initializeAdapters startTw startTk startYt DEBUG env stopFns =
      (Inr s4,
       snd (twitch_block startTw DEBUG env stopFns) @ snd (tiktok_block startTk DEBUG env s1)
         @ snd (youtube_block startYt DEBUG env s2) @ snd (fake_block env s3))"
    by (simp add: initializeAdapters_def bind_Inr [OF s1] bind_Inr [OF s2] bind_Inr [OF s3] s4)
  with s1 s2 s3 s4 show ?thesis by (rule that)
qed

lemma initializeAdapters_started:
  "start_calls (snd (initializeAdapters startTw startTk startYt DEBUG env stopFns)) =
     filter (\<lambda>p. list_all (\<lambda>k. truthy (env k)) (required_keys p)) [Twitch, TikTok, YouTube]"
proof -
  obtain s1 s2 s3 s4 where
    "initializeAdapters startTw startTk startYt DEBUG env stopFns =
      (Inr s4,
       snd (twitch_block startTw DEBUG env stopFns) @ snd (tiktok_block startTk DEBUG env s1)
         @ snd (youtube_block startYt DEBUG env s2) @ snd (fake_block env s3))"
    by (rule initializeAdapters_blocks)
  then show ?thesis
    by (simp add: twitch_block_started tiktok_block_started youtube_block_started
        fake_block_started)
qed

lemma fst_twitch_block:
  "fst (twitch_block start DEBUG env stopFns) =
     Inr (stopFns @
          (if truthy (env ''TWITCH_USERNAME'') \<and> truthy (env ''TWITCH_OAUTH'')
              \<and> truthy (env ''TWITCH_CHANNELS'')
           then registered (start (twitch_options DEBUG env)) else []))"
  by (simp add: twitch_block_eq registered_def split: sum.splits)

lemma fst_tiktok_block:
  "fst (tiktok_block start DEBUG env stopFns) =
     Inr (stopFns @
          (case env ''TIKTOK_USERNAME'' of
             Some (c # cs) \<Rightarrow> registered (start (tiktok_options DEBUG (c # cs)))
           | _ \<Rightarrow> []))"
  by (simp add: tiktok_block_eq registered_def split: sum.splits option.splits list.splits)

lemma fst_youtube_block:
  "fst (youtube_block start DEBUG env stopFns) =
     Inr (stopFns @
          (case env ''YT_CHANNEL_ID'' of
             Some (c # cs) \<Rightarrow> registered (start (youtube_options DEBUG env (c # cs)))
           | _ \<Rightarrow> []))"
  by (simp add: youtube_block_eq registered_def split: sum.splits option.splits list.splits)

lemma fst_fake_block:
  "fst (fake_block env stopFns) =
     Inr (stopFns @ (if env ''FAKE_MESSAGES'' = Some ''true'' then [ClearInterval] else []))"
  by (simp add: fake_block_def ret_def)

lemma fst_initializeAdapters:
  "fst (initializeAdapters startTw startTk startYt DEBUG env stopFns) =
     Inr (stopFns
          @ (if truthy (env ''TWITCH_USERNAME'') \<and> truthy (env ''TWITCH_OAUTH'')
                \<and> truthy (env ''TWITCH_CHANNELS'')
             then registered (startTw (twitch_options DEBUG env)) else [])
          @ (case env ''TIKTOK_USERNAME'' of
               Some (c # cs) \<Rightarrow> registered (startTk (tiktok_options DEBUG (c # cs)))
             | _ \<Rightarrow> [])
          @ (case env ''YT_CHANNEL_ID'' of
               Some (c # cs) \<Rightarrow> registered (startYt (youtube_options DEBUG env (c # cs)))
             | _ \<Rightarrow> [])
          @ (if env ''FAKE_MESSAGES'' = Some ''true'' then [ClearInterval] else []))"
  by (simp only: initializeAdapters_def bind_Inr [OF fst_twitch_block]
      bind_Inr [OF fst_tiktok_block] bind_Inr [OF fst_youtube_block] fst_fake_block
      fst_conv append_assoc)

text \<open>A start that fails leaves its line on the console.\<close>

lemma console_errors_twitch_block:
  "truthy (env ''TWITCH_USERNAME'') \<and> truthy (env ''TWITCH_OAUTH'')
     \<and> truthy (env ''TWITCH_CHANNELS'') \<Longrightarrow> start (twitch_options DEBUG env) = Inl e \<Longrightarrow>
   console_errors (snd (twitch_block start DEBUG env stopFns)) =
     [''[twitch] Failed to start: '' @ error_message e]"
  by (simp add: twitch_block_eq)

lemma console_errors_tiktok_block:
  "env ''TIKTOK_USERNAME'' = Some u \<Longrightarrow> u \<noteq> [] \<Longrightarrow> start (tiktok_options DEBUG u) = Inl e \<Longrightarrow>
   console_errors (snd (tiktok_block start DEBUG env stopFns)) =
     [''[tiktok] Failed to start: '' @ error_message e]"
  by (cases u) (simp_all add: tiktok_block_eq)

lemma console_errors_youtube_block:
  "env ''YT_CHANNEL_ID'' = Some c \<Longrightarrow> c \<noteq> [] \<Longrightarrow> start (youtube_options DEBUG env c) = Inl e \<Longrightarrow>
   console_errors (snd (youtube_block start DEBUG env stopFns)) =
     [''[youtube] Failed to start: '' @ error_message e]"
  by (cases c) (simp_all add: youtube_block_eq)

lemma console_errors_initializeAdapters:
  "\<exists>s1 s2 s3.
     console_errors (snd (initializeAdapters startTw startTk startYt DEBUG env stopFns)) =
       console_errors (snd (twitch_block startTw DEBUG env stopFns))
       @ console_errors (snd (tiktok_block startTk DEBUG env s1))
       @ console_errors (snd (youtube_block startYt DEBUG env s2))
       @ console_errors (snd (fake_block env s3))"
proof -
  obtain s1 s2 s3 s4 where
    "initializeAdapters startTw startTk startYt DEBUG env stopFns =
      (Inr s4,
       snd (twitch_block startTw DEBUG env stopFns) @ snd (tiktok_block startTk DEBUG env s1)
         @ snd (youtube_block startYt DEBUG env s2) @ snd (fake_block env s3))"
    by (rule initializeAdapters_blocks)
  then have "console_errors (snd (initializeAdapters startTw startTk startYt DEBUG env stopFns)) =
       console_errors (snd (twitch_block startTw DEBUG env stopFns))
       @ console_errors (snd (tiktok_block startTk DEBUG env s1))
       @ console_errors (snd (youtube_block startYt DEBUG env s2))
       @ console_errors (snd (fake_block env s3))"
    by simp
  then show ?thesis by blast
qed

text \<open>
  C6, as amended. A platform one of whose required keys is absent or empty is
  skipped: its start function is not called. A platform whose required keys are all
  set to non-empty values has its start function called, whichever keys of the other
  platforms are missing and whatever the other start calls do. \<open>initializeAdapters\<close>
  never throws: it returns the stop functions registered before, followed by the stop
  function of every start call that returned one, and by none for a call that failed.
  A start call that fails is caught, and its error is written to the console after
  the words \<open>Failed to start\<close>.
\<close>

theorem missing_keys_skip_only_that_adapter:
  "((\<exists>k \<in> set (required_keys p). \<not> truthy (env k)) \<longrightarrow>
        p \<notin> set (start_calls (snd (initializeAdapters startTw startTk startYt DEBUG env stopFns))))
   \<and> ((\<forall>k \<in> set (required_keys q). truthy (env k)) \<longrightarrow>
        q \<in> set (start_calls (snd (initializeAdapters startTw startTk startYt DEBUG env stopFns))))
   \<and> fst (initializeAdapters startTw startTk startYt DEBUG env stopFns) =
       Inr (stopFns
            @ (if truthy (env ''TWITCH_USERNAME'') \<and> truthy (env ''TWITCH_OAUTH'')
                  \<and> truthy (env ''TWITCH_CHANNELS'')
               then registered (startTw (twitch_options DEBUG env)) else [])
            @ (case env ''TIKTOK_USERNAME'' of
                 Some (c # cs) \<Rightarrow> registered (startTk (tiktok_options DEBUG (c # cs)))
               | _ \<Rightarrow> [])
            @ (case env ''YT_CHANNEL_ID'' of
                 Some (c # cs) \<Rightarrow> registered (startYt (youtube_options DEBUG env (c # cs)))
               | _ \<Rightarrow> [])
            @ (if env ''FAKE_MESSAGES'' = Some ''true'' then [ClearInterval] else []))
   \<and> (truthy (env ''TWITCH_USERNAME'') \<and> truthy (env ''TWITCH_OAUTH'')
         \<and> truthy (env ''TWITCH_CHANNELS'') \<and> startTw (twitch_options DEBUG env) = Inl e1
       \<longrightarrow> ''[twitch] Failed to start: '' @ error_message e1
             \<in> set (console_errors
                      (snd (initializeAdapters startTw startTk startYt DEBUG env stopFns))))
   \<and> (env ''TIKTOK_USERNAME'' = Some u \<and> u \<noteq> [] \<and> startTk (tiktok_options DEBUG u) = Inl e2
       \<longrightarrow> ''[tiktok] Failed to start: '' @ error_message e2
             \<in> set (console_errors
                      (snd (initializeAdapters startTw startTk startYt DEBUG env stopFns))))
   \<and> (env ''YT_CHANNEL_ID'' = Some c \<and> c \<noteq> [] \<and> startYt (youtube_options DEBUG env c) = Inl e3
       \<longrightarrow> ''[youtube] Failed to start: '' @ error_message e3
             \<in> set (console_errors
                      (snd (initializeAdapters startTw startTk startYt DEBUG env stopFns))))"
proof -
  have a: "\<not> list_all (\<lambda>k. truthy (env k)) (required_keys p)"
    if "\<exists>k \<in> set (required_keys p). \<not> truthy (env k)"
    using that unfolding list_all_iff by blast
  have b: "q \<in> set [Twitch, TikTok, YouTube]" by (cases q) simp_all
  have calls: "((\<exists>k \<in> set (required_keys p). \<not> truthy (env k)) \<longrightarrow>
        p \<notin> set (start_calls (snd (initializeAdapters startTw startTk startYt DEBUG env stopFns))))
     \<and> ((\<forall>k \<in> set (required_keys q). truthy (env k)) \<longrightarrow>
        q \<in> set (start_calls (snd (initializeAdapters startTw startTk startYt DEBUG env stopFns))))"
    using a b by (auto simp: initializeAdapters_started list_all_iff)
  obtain s1 s2 s3 where
    log: "console_errors (snd (initializeAdapters startTw startTk startYt DEBUG env stopFns)) =
       console_errors (snd (twitch_block startTw DEBUG env stopFns))
       @ console_errors (snd (tiktok_block startTk DEBUG env s1))
       @ console_errors (snd (youtube_block startYt DEBUG env s2))
       @ console_errors (snd (fake_block env s3))"
    using console_errors_initializeAdapters by blast
  have l1: "''[twitch] Failed to start: '' @ error_message e1
             \<in> set (console_errors
                      (snd (initializeAdapters startTw startTk startYt DEBUG env stopFns)))"
    if "truthy (env ''TWITCH_USERNAME'') \<and> truthy (env ''TWITCH_OAUTH'')
         \<and> truthy (env ''TWITCH_CHANNELS'')" "startTw (twitch_options DEBUG env) = Inl e1"
    using that unfolding log by (simp add: console_errors_twitch_block)
  have l2: "''[tiktok] Failed to start: '' @ error_message e2
             \<in> set (console_errors
                      (snd (initializeAdapters startTw startTk startYt DEBUG env stopFns)))"
    if "env ''TIKTOK_USERNAME'' = Some u" "u \<noteq> []" "startTk (tiktok_options DEBUG u) = Inl e2"
    using that unfolding log by (simp add: console_errors_tiktok_block)
  have l3: "''[youtube] Failed to start: '' @ error_message e3
             \<in> set (console_errors
                      (snd (initializeAdapters startTw startTk startYt DEBUG env stopFns)))"
    if "env ''YT_CHANNEL_ID'' = Some c" "c \<noteq> []" "startYt (youtube_options DEBUG env c) = Inl e3"
    using that unfolding log by (simp add: console_errors_youtube_block)
  show ?thesis
    using calls l1 l2 l3
      fst_initializeAdapters [of startTw startTk startYt DEBUG env stopFns]
    by blast
qed

text \<open>
  An environment without TWITCH_OAUTH, with a TikTok start that returns and a YouTube
  start that fails: Twitch is skipped, both other start functions are called, the stop
  function of TikTok is registered and the failure of YouTube is on the console. In an
  environment whose TIKTOK_USERNAME is empty, TikTok is skipped. With every key set,
  the failing starts of Twitch and TikTok are logged and YouTube is registered.
\<close>

theorem missing_keys_skip_only_that_adapter_witness:
  "\<not> truthy (no_twitch_env ''TWITCH_OAUTH'')
   \<and> truthy (no_twitch_env ''TIKTOK_USERNAME'')
   \<and> youtube_fails (youtube_options False no_twitch_env ''UC1'') = Inl (Error ''channel offline'')
   \<and> start_calls (snd (initializeAdapters (server_startTwitch connect_ok) tiktok_ok
        youtube_fails False no_twitch_env [])) = [TikTok, YouTube]
   \<and> fst (initializeAdapters (server_startTwitch connect_ok) tiktok_ok youtube_fails False
        no_twitch_env []) = Inr [StopTikTok]
   \<and> console_errors (snd (initializeAdapters (server_startTwitch connect_ok) tiktok_ok
        youtube_fails False no_twitch_env [])) = [''[youtube] Failed to start: channel offline'']
   \<and> \<not> truthy (empty_key_env ''TIKTOK_USERNAME'')
   \<and> start_calls (snd (initializeAdapters (server_startTwitch connect_ok) tiktok_ok
        youtube_ok False empty_key_env [])) = [YouTube]
   \<and> fst (initializeAdapters (server_startTwitch connect_ok) tiktok_fails youtube_ok False
        all_keys_env []) = Inr [StopYouTube]
   \<and> console_errors (snd (initializeAdapters (server_startTwitch connect_ok) tiktok_fails
        youtube_ok False all_keys_env [])) =
       [''[twitch] Failed to start: Cannot read properties of undefined (reading startsWith)'',
        ''[tiktok] Failed to start: user not live'']"
proof -
  have run: "initializeAdapters (server_startTwitch connect_ok) tiktok_ok youtube_fails False
        no_twitch_env [] =
       (Inr [StopTikTok],
        [StartAdapter TikTok, ConsoleLog ''[youtube] starting with channel id: UC1'',
         StartAdapter YouTube, ConsoleError ''[youtube] Failed to start: channel offline''])"
    by (simp add: initializeAdapters_def twitch_block_def tiktok_block_def youtube_block_def
        fake_block_def try_catch_def bind_def emit_def ret_def await_def truthy_def
        no_twitch_env_def tiktok_ok_def youtube_fails_def tiktok_options_def
        youtube_options_def)
  have run2: "initializeAdapters (server_startTwitch connect_ok) tiktok_ok youtube_ok False
        empty_key_env [] =
       (Inr [StopYouTube],
        [ConsoleLog ''[youtube] starting with channel id: UC1'', StartAdapter YouTube])"
    by (simp add: initializeAdapters_def twitch_block_def tiktok_block_def youtube_block_def
        fake_block_def try_catch_def bind_def emit_def ret_def await_def truthy_def
        empty_key_env_def youtube_ok_def youtube_options_def)
  have run3: "initializeAdapters (server_startTwitch connect_ok) tiktok_fails youtube_ok False
        all_keys_env [] =
       (Inr [StopYouTube],
        [StartAdapter Twitch,
         ConsoleError ''[twitch] Failed to start: Cannot read properties of undefined (reading startsWith)'',
         StartAdapter TikTok, ConsoleError ''[tiktok] Failed to start: user not live'',
         ConsoleLog ''[youtube] starting with channel id: UC1'', StartAdapter YouTube])"
    by (simp add: initializeAdapters_def twitch_block_def tiktok_block_def youtube_block_def
        fake_block_def try_catch_def bind_def emit_def ret_def await_def truthy_def
        all_keys_env_def tiktok_fails_def youtube_ok_def tiktok_options_def youtube_options_def
        twitch_options_def server_startTwitch_def startTwitch_def throw_def)
  show ?thesis
    using run run2 run3
      missing_keys_skip_only_that_adapter [of Twitch all_keys_env
        "server_startTwitch connect_ok" tiktok_fails youtube_ok False "[]" TikTok
        "TypeError ''Cannot read properties of undefined (reading startsWith)''" "''ann''"
        "Error ''user not live''" "''UC1''" "Error ''x''"]
      missing_keys_skip_only_that_adapter [of Twitch no_twitch_env
        "server_startTwitch connect_ok" tiktok_ok youtube_fails False "[]" TikTok
        "Error ''x''" "''ann''" "Error ''x''" "''UC1''" "Error ''channel offline''"]
      missing_keys_skip_only_that_adapter [of TikTok empty_key_env
        "server_startTwitch connect_ok" tiktok_ok youtube_ok False "[]" YouTube]
    by (simp add: no_twitch_env_def empty_key_env_def truthy_def youtube_fails_def)
qed

text \<open>
  C6 as stated fails where it says that a platform whose keys are present is started.
  With TIKTOK_USERNAME present but empty, the start function of TikTok is not called.
  With YT_CHANNEL_ID set and a YouTube start that fails, the failure is caught and
  logged and no stop function of YouTube is registered: only that of TikTok is.
\<close>

theorem keys_present_not_started_counterexample:
  "empty_key_env ''TIKTOK_USERNAME'' = Some []
   \<and> initializeAdapters (server_startTwitch connect_ok) tiktok_ok youtube_ok False
        empty_key_env [] =
       (Inr [StopYouTube],
        [ConsoleLog ''[youtube] starting with channel id: UC1'', StartAdapter YouTube])
   \<and> no_twitch_env ''YT_CHANNEL_ID'' = Some ''UC1''
   \<and> initializeAdapters (server_startTwitch connect_ok) tiktok_ok youtube_fails False
        no_twitch_env [] =
       (Inr [StopTikTok],
        [StartAdapter TikTok, ConsoleLog ''[youtube] starting with channel id: UC1'',
         StartAdapter YouTube, ConsoleError ''[youtube] Failed to start: channel offline''])"
  by (simp add: initializeAdapters_def twitch_block_def tiktok_block_def youtube_block_def
      fake_block_def try_catch_def bind_def emit_def ret_def await_def truthy_def
      no_twitch_env_def empty_key_env_def tiktok_ok_def youtube_ok_def youtube_fails_def
      tiktok_options_def youtube_options_def)

lemma startTwitch_no_channel:
  "cfg_channel cfg = None \<Longrightarrow>
     startTwitch connect cfg =
       (Inl (TypeError ''Cannot read properties of undefined (reading startsWith)''), [])"
  by (simp add: startTwitch_def throw_def)

lemma twitch_block_server:
  "twitch_block (server_startTwitch connect) DEBUG env stopFns =
     (Inr stopFns,
      if truthy (env ''TWITCH_USERNAME'') \<and> truthy (env ''TWITCH_OAUTH'')
         \<and> truthy (env ''TWITCH_CHANNELS'')
      then [StartAdapter Twitch,
            ConsoleError ''[twitch] Failed to start: Cannot read properties of undefined (reading startsWith)'']
      else if DEBUG then [ConsoleLog ''[twitch] skipped (missing env)''] else [])"
  by (simp add: twitch_block_eq server_startTwitch_def startTwitch_no_channel
      twitch_options_def)

text \<open>
  C9. Called with an object that has no \<open>channel\<close>, \<open>startTwitch\<close> throws a TypeError
  before it has created a client or registered a handler. The object the server builds
  has \<open>channels\<close> and no \<open>channel\<close>: so in every environment the Twitch block leaves
  \<open>stopFns\<close> as it was, logging the failure when the keys are set, and the stop
  functions \<open>initializeAdapters\<close> registers are those of the other blocks alone.
\<close>

theorem twitch_adapter_never_starts:
  "(cfg_channel cfg = None \<longrightarrow>
      startTwitch connect cfg =
        (Inl (TypeError ''Cannot read properties of undefined (reading startsWith)''), []))
   \<and> twitch_block (server_startTwitch connect) DEBUG env stopFns =
       (Inr stopFns,
        if truthy (env ''TWITCH_USERNAME'') \<and> truthy (env ''TWITCH_OAUTH'')
           \<and> truthy (env ''TWITCH_CHANNELS'')
        then [StartAdapter Twitch,
              ConsoleError ''[twitch] Failed to start: Cannot read properties of undefined (reading startsWith)'']
        else if DEBUG then [ConsoleLog ''[twitch] skipped (missing env)''] else [])
   \<and> fst (initializeAdapters (server_startTwitch connect) startTk startYt DEBUG env stopFns) =
       fst (bind (tiktok_block startTk DEBUG env stopFns) (\<lambda>s2.
            bind (youtube_block startYt DEBUG env s2) (fake_block env)))"
  by (simp add: startTwitch_no_channel twitch_block_server initializeAdapters_def bind_Inr)

text \<open>
  With the three Twitch keys set, the start fails and nothing is registered; the same
  \<open>startTwitch\<close> given a \<open>channel\<close> creates its client, connects and returns a stop
  function.
\<close>

theorem twitch_adapter_never_starts_witness:
  "initializeAdapters (server_startTwitch connect_ok) tiktok_ok youtube_fails False twitch_env []
     = (Inr [],
        [StartAdapter Twitch,
         ConsoleError ''[twitch] Failed to start: Cannot read properties of undefined (reading startsWith)'',
         ConsoleWarn ''[youtube] skipped: set YT_CHANNEL_ID in your environment to enable YouTube''])
   \<and> startTwitch connect_ok \<lparr> cfg_channel = Some ''#a'', cfg_username = None, cfg_oauth = None,
                               cfg_channels = None, cfg_debug = None \<rparr>
     = (Inr (StopTwitch ''a''),
        [NewClient False [''a''], ClientOn ''message'', ClientOn ''connected'',
         ClientOn ''disconnected'', ClientConnect])"
  using twitch_adapter_never_starts [of
      "\<lparr> cfg_channel = None, cfg_username = Some ''bot'', cfg_oauth = Some ''oauth:x'',
         cfg_channels = Some [''#a'', ''b''], cfg_debug = Some False \<rparr>"
      connect_ok False twitch_env "[]" tiktok_ok youtube_fails]
  by (simp add: initializeAdapters_def tiktok_block_def youtube_block_def
      fake_block_def bind_def emit_def ret_def truthy_def
      twitch_env_def startTwitch_def client_connect_def connect_ok_def Let_def throw_def)

section \<open>The subscriber badge\<close>

lemma fold_max_Max: "fold max ts (t::int) = Max (set (t # ts))"
  by (simp only: Max.set_eq_fold)

lemma fold_min_Min: "fold min ts (t::int) = Min (set (t # ts))"
  by (simp only: Min.set_eq_fold)

lemma resolve_tier_exact: "months \<in> set tiers \<Longrightarrow> resolve_tier tiers months = Some months"
  by (simp add: resolve_tier_def)

lemma resolve_tier_below:
  assumes "months \<notin> set tiers" and "\<exists>t \<in> set tiers. t \<le> months"
  shows "\<exists>t. resolve_tier tiers months = Some t \<and> t \<in> set tiers \<and> t \<le> months
           \<and> (\<forall>u \<in> set tiers. u \<le> months \<longrightarrow> u \<le> t)"
proof -
  from assms(2) have "filter (\<lambda>t. t \<le> months) tiers \<noteq> []"
    by (auto simp: filter_empty_conv)
  then obtain t ts where f: "filter (\<lambda>t. t \<le> months) tiers = t # ts"
    by (cases "filter (\<lambda>t. t \<le> months) tiers") auto
  let ?S = "set (t # ts)"
  have S: "?S = {u \<in> set tiers. u \<le> months}"
    using f by (metis set_filter)
  have r: "resolve_tier tiers months = Some (Max ?S)"
    using assms(1) f by (simp only: resolve_tier_def fold_max_Max) simp
  have "Max ?S \<in> ?S" by (rule Max_in) simp_all
  moreover have "u \<le> Max ?S" if "u \<in> ?S" for u using that by (intro Max_ge) simp_all
  ultimately show ?thesis
    unfolding r S by blast
qed

lemma resolve_tier_lowest:
  assumes "tiers \<noteq> []" and "\<forall>t \<in> set tiers. months < t"
  shows "\<exists>t. resolve_tier tiers months = Some t \<and> t \<in> set tiers \<and> (\<forall>u \<in> set tiers. t \<le> u)"
proof -
  from assms(2) have f: "filter (\<lambda>t. t \<le> months) tiers = []"
    by (auto simp: filter_empty_conv)
  from assms(2) have n: "months \<notin> set tiers" by auto
  from assms(1) obtain t ts where ts: "tiers = t # ts" by (cases tiers) auto
  have r: "resolve_tier tiers months = Some (Min (set tiers))"
    using n f unfolding ts by (simp only: resolve_tier_def fold_min_Min) simp
  have "Min (set tiers) \<in> set tiers" using assms(1) by (intro Min_in) simp_all
  moreover have "Min (set tiers) \<le> u" if "u \<in> set tiers" for u
    using that by (intro Min_le) simp_all
  ultimately show ?thesis unfolding r by blast
qed

text \<open>
  C4. The tier of a subscriber badge: the exact tier when the catalog has it; otherwise
  the greatest tier of the catalog that does not exceed the month count, never a higher
  one, so 37 months with tiers 1, 3, 6, 12, 24 gives 24; when every tier exceeds the
  count, the lowest tier. The component resolves the badge of a Twitch subscriber with
  the month count of the message, and with 1 when that count is null, NaN or 0.
\<close>

theorem subscription_tier_fallback:
  "(months \<in> set tiers \<longrightarrow> resolve_tier tiers months = Some months)
   \<and> (months \<notin> set tiers \<and> (\<exists>t \<in> set tiers. t \<le> months) \<longrightarrow>
        (\<exists>t. resolve_tier tiers months = Some t \<and> t \<in> set tiers \<and> t \<le> months
             \<and> (\<forall>u \<in> set tiers. u \<le> months \<longrightarrow> u \<le> t)))
   \<and> resolve_tier [1, 3, 6, 12, 24] 37 = Some 24
   \<and> (tiers \<noteq> [] \<and> (\<forall>t \<in> set tiers. months < t) \<longrightarrow>
        (\<exists>t. resolve_tier tiers months = Some t \<and> t \<in> set tiers \<and> (\<forall>u \<in> set tiers. t \<le> u)))
   \<and> (isTwitchSubscriber message badge \<longrightarrow>
        subscriber_badge catalog message badge =
          getSubscriptionBadgeUrl catalog (months_or_1 (getSubscriptionMonths message)))
   \<and> months_or_1 None = 1 \<and> months_or_1 (Some NaN) = 1 \<and> months_or_1 (Some (Num 0)) = 1"
proof -
  have "resolve_tier [1, 3, 6, 12, 24] 37 = Some 24"
    by (simp add: resolve_tier_def)
  then show ?thesis
    using resolve_tier_exact [of months tiers] resolve_tier_below [of months tiers]
      resolve_tier_lowest [of tiers months]
    by (simp add: subscriber_badge_def months_or_1_def)
qed

text \<open>
  Tiers 1, 3, 6, 12 and 24: 12 months resolve to 12, 37 months to 24, and with tiers 3
  and 6 alone 2 months resolve to 3. A message of a subscriber of 37 months, as the
  Twitch adapter and \<open>normalize\<close> produce it, gets the image of tier 24; a Twitch message
  without a month count gets the image of tier 1.
\<close>

theorem subscription_tier_fallback_witness:
  "resolve_tier [1, 3, 6, 12, 24] 12 = Some 12
   \<and> resolve_tier [1, 3, 6, 12, 24] 37 = Some 24
   \<and> resolve_tier [3, 6] 2 = Some 3
   \<and> getSubscriptionMonths subscriber_chat = Some (Num 37)
   \<and> subscriber_badge tier_catalog subscriber_chat ''subscriber'' = Some ''sub-24.png''
   \<and> getSubscriptionMonths plain_chat = None
   \<and> subscriber_badge tier_catalog plain_chat ''Subscriber'' = Some ''sub-1.png''"
proof -
  have s: "isTwitchSubscriber subscriber_chat ''subscriber''"
    by (simp add: isTwitchSubscriber_def subscriber_chat_def normalize_event_def
        with_platform_def twitch_event_no_platform toLowerCase_def lower_char_def)
  have p: "isTwitchSubscriber plain_chat ''Subscriber''"
    by (simp add: isTwitchSubscriber_def plain_chat_def normalize_event_def
        with_platform_def twitch_event_no_platform toLowerCase_def lower_char_def)
  have m: "getSubscriptionMonths subscriber_chat = Some (Num 37)"
    by (simp add: getSubscriptionMonths_def subscriber_chat_def normalize_event_def
        with_platform_def twitch_event_def subscriber_message_def subscriber_tags_def
        parseInt10_def is_space_def digit_of_def Let_def)
  have n: "getSubscriptionMonths plain_chat = None"
    by (simp add: getSubscriptionMonths_def months_from_badges_def parsed_subscriber_def
        plain_chat_def normalize_event_def with_platform_def twitch_event_def
        good_message_def plain_tags_def Let_def)
  show ?thesis
    using s p m n
      subscription_tier_fallback [of 12 "[1, 3, 6, 12, 24]" subscriber_chat "''subscriber''"
        tier_catalog]
      subscription_tier_fallback [of 37 "[1, 3, 6, 12, 24]" plain_chat "''Subscriber''"
        tier_catalog]
      subscription_tier_fallback [of 2 "[3, 6]" plain_chat "''Subscriber''" tier_catalog]
    by (simp add: getSubscriptionBadgeUrl_def resolve_tier_def tier_catalog_def months_or_1_def)
qed

section \<open>The display mode\<close>

text \<open>
  C10. Whenever the query string does not set \<open>private\<close> to 1, true or yes (in any
  letter case) and the path without its trailing slashes is not \<open>/private\<close>, the client
  computes public mode and enables auto-expiry. This holds with no parameter at all and
  with \<open>?mode=private\<close>; private mode is only ever selected by the \<open>private\<close> parameter
  or by the \<open>/private\<close> path.
\<close>

theorem isPublicMode_default:
  "((\<forall>v. params_get (search loc) ''private'' = Some v
          \<longrightarrow> toLowerCase v \<notin> {''1'', ''true'', ''yes''})
     \<and> strip_trailing_slashes (pathname loc) \<noteq> ''/private''
     \<longrightarrow> isPublicMode loc \<and> autoExpire (useChatMessages_options loc))
   \<and> isPublicMode \<lparr> search = [], pathname = ''/'' \<rparr>
   \<and> isPublicMode \<lparr> search = [(''mode'', ''private'')], pathname = ''/'' \<rparr>
   \<and> (\<not> isPublicMode loc \<longrightarrow>
        (\<exists>v. params_get (search loc) ''private'' = Some v
              \<and> toLowerCase v \<in> {''1'', ''true'', ''yes''})
        \<or> strip_trailing_slashes (pathname loc) = ''/private'')"
  by (auto simp: isPublicMode_def isPrivateParam_def isPrivatePath_def
      useChatMessages_options_def params_get_def strip_trailing_slashes_def
      split: option.splits)

text \<open>
  \<open>?private=no\<close> on the path \<open>/overlay/\<close> is public; \<open>?private=YES\<close> and the path
  \<open>/private//\<close> are private.
\<close>

theorem isPublicMode_default_witness:
  "params_get (search overlay_location) ''private'' = Some ''no''
   \<and> strip_trailing_slashes (pathname overlay_location) = ''/overlay''
   \<and> isPublicMode overlay_location
   \<and> autoExpire (useChatMessages_options overlay_location)
   \<and> \<not> isPublicMode \<lparr> search = [(''private'', ''YES'')], pathname = ''/'' \<rparr>
   \<and> \<not> isPublicMode \<lparr> search = [], pathname = ''/private//'' \<rparr>"
  using isPublicMode_default [of overlay_location]
  by (simp add: isPublicMode_def isPrivateParam_def isPrivatePath_def params_get_def
      strip_trailing_slashes_def toLowerCase_def lower_char_def overlay_location_def
      useChatMessages_options_def)

end
